theory Spec2Isabelle
  imports Main
begin

section \<open>Python strings\<close>

text \<open>
  Python's \<^verbatim>\<open>str.replace(old, new)\<close>: the string is scanned from the left, every
  non-overlapping occurrence of \<open>old\<close> is replaced by \<open>new\<close>; with an empty \<open>old\<close>
  the replacement is put before every character and at the end.
\<close>

fun str_replace :: "string \<Rightarrow> string \<Rightarrow> string \<Rightarrow> string" where
  "str_replace old new [] = (if old = [] then new else [])"
| "str_replace old new (c # cs) =
     (if old = [] then new @ c # str_replace old new cs
      else if take (length old) (c # cs) = old
        then new @ str_replace old new (drop (length old) (c # cs))
      else c # str_replace old new cs)"

text \<open>\<^verbatim>\<open>sep.join(tokens)\<close>.\<close>

fun str_join :: "string \<Rightarrow> string list \<Rightarrow> string" where
  "str_join sep [] = []"
| "str_join sep [t] = t"
| "str_join sep (t # u # ts) = t @ sep @ str_join sep (u # ts)"

text \<open>\<^verbatim>\<open>str(n)\<close> and \<^verbatim>\<open>f'{n}'\<close> for an integer: its decimal digits, with a sign.\<close>

function str_nat :: "nat \<Rightarrow> string" where
  "str_nat n =
     (if n < 10 then [''0123456789'' ! n]
      else str_nat (n div 10) @ [''0123456789'' ! (n mod 10)])"
  by pat_completeness auto
termination
  by (relation "measure id") auto

declare str_nat.simps [simp del]

definition str_int :: "int \<Rightarrow> string" where
  "str_int i = (if i < 0 then ''-'' @ str_nat (nat (- i)) else str_nat (nat i))"

text \<open>\<^verbatim>\<open>enumerate(xs)\<close>: the elements paired with their positions, from 0.\<close>

definition enumerate_py :: "'a list \<Rightarrow> (nat \<times> 'a) list" where
  "enumerate_py xs = zip [0..<length xs] xs"

section \<open>Exceptions\<close>

text \<open>
  Every \<^verbatim>\<open>raise\<close> that the modelled code can reach is a value: the bare
  \<^verbatim>\<open>Exception\<close> of \<^verbatim>\<open>save\<close> and \<^verbatim>\<open>delete\<close> with its message, the
  \<^verbatim>\<open>IndexError\<close> of \<^verbatim>\<open>row[i]\<close>, the \<^verbatim>\<open>AttributeError\<close> of \<^verbatim>\<open>getattr\<close>, the
  \<^verbatim>\<open>TypeError\<close> of calling an object that is not callable, the \<^verbatim>\<open>RuntimeError\<close> of
  awaiting a coroutine a second time, and \<open>Raised\<close>, whatever the database handle or
  the record constructor raises, which the gateway lets through untouched.
\<close>

datatype error =
    Exception string
  | IndexError
  | AttributeError string
  | TypeError
  | RuntimeError
  | Raised string

section \<open>Metadata (common.py)\<close>

record ColumnMetadata =
  column_name :: string
  field_name :: string
  sql_data_type :: string
  is_array :: bool

text \<open>
  \<^verbatim>\<open>primary_key: Optional[set[str]]\<close>. The column tuple is \<open>columns\<close>
  (the constructor's \<^verbatim>\<open>column_fields\<close>).
\<close>

record TableMetadata =
  table_schema :: string
  table_name :: string
  columns :: "ColumnMetadata list"
  primary_key :: "string set option"

section \<open>Identifier quoting and fragment rendering (common.py)\<close>

text \<open>
  \<^verbatim>\<open>_q(name)\<close>: \<^verbatim>\<open>'"' + name.replace('"', '""') + '"'\<close>. Isabelle names do not
  start with an underscore, so the leading underscore of the module-private functions is
  dropped and \<^verbatim>\<open>_q\<close> is \<open>q_ident\<close>.
\<close>

definition q_ident :: "string \<Rightarrow> string" where
  \<open>q_ident name = ''"'' @ str_replace ''"'' ''""'' name @ ''"''\<close>

definition render_list :: "string list \<Rightarrow> string" where
  "render_list tokens = str_join '', '' tokens"

definition column_alias :: "string \<Rightarrow> string \<Rightarrow> string" where
  "column_alias table_alias col = q_ident table_alias @ ''.'' @ q_ident col"

definition render_selection_set :: "ColumnMetadata list \<Rightarrow> string" where
  "render_selection_set cols = render_list (map (\<lambda>col. q_ident (column_name col)) cols)"

definition render_aliased_selection_set :: "string \<Rightarrow> ColumnMetadata list \<Rightarrow> string" where
  "render_aliased_selection_set table_alias cols =
     render_list (map (\<lambda>col. column_alias table_alias (column_name col)) cols)"

text \<open>
  The bind placeholders of \<^verbatim>\<open>_render_unnested_selection\<close>:
  \<^verbatim>\<open>f'${i+1}::{col.sql_data_type}[]' for i, col in enumerate(cols)\<close>.
\<close>

definition unnest_placeholders :: "ColumnMetadata list \<Rightarrow> string list" where
  "unnest_placeholders cols =
     map (\<lambda>(i, col). ''$'' @ str_int (int i + 1) @ ''::'' @ sql_data_type col @ ''[]'')
       (enumerate_py cols)"

definition render_unnested_selection :: "ColumnMetadata list \<Rightarrow> string" where
  "render_unnested_selection cols =
     ''SELECT DISTINCT ON (__k.*) __k.* AS __n FROM UNNEST(''
     @ str_join '', '' (unnest_placeholders cols)
     @ '') AS __k('' @ render_selection_set cols @ '')''"

definition render_tk_match :: "string \<Rightarrow> string \<Rightarrow> ColumnMetadata list \<Rightarrow> string" where
  "render_tk_match t k cols =
     str_join '' AND ''
       (map (\<lambda>c. q_ident t @ ''.'' @ q_ident (column_name c) @ '' = ''
                  @ q_ident k @ ''.'' @ q_ident (column_name c)) cols)"

section \<open>Table references (common.py)\<close>

text \<open>
  A \<^verbatim>\<open>TableReference\<close> object: the three attributes set by \<^verbatim>\<open>__init__\<close>, and
  \<open>alias_attr\<close>, the entry \<^verbatim>\<open>alias\<close> of the instance dictionary, which is absent
  (\<open>None\<close>) until \<^verbatim>\<open>alias()\<close> assigns it on the copy; \<^verbatim>\<open>copy\<close> carries it over. The list \<^verbatim>\<open>columns\<close> is
  created empty and no method of the class reads or writes it. The attributes
  \<^verbatim>\<open>table_schema\<close> and \<^verbatim>\<open>table_name\<close> are \<open>ref_schema\<close> and \<open>ref_name\<close> here,
  their own names being fields of the table metadata above.
\<close>

record TableReference =
  ref_schema :: string
  ref_name :: string
  table_alias :: "string option"
  alias_attr :: "string option"




section \<open>The table gateway (common.py)\<close>

text \<open>
  The database handle is a \<^verbatim>\<open>typing.Protocol\<close>; its implementation belongs to the
  caller. The model keeps what the gateway can observe: the answer to
  \<^verbatim>\<open>query(sql, *args)\<close> and to \<^verbatim>\<open>exec(sql, *args)\<close> (rows or an affected-row
  count, or an exception), and \<open>calls\<close>, the statements dispatched so far with their
  positional arguments, oldest first. Values of rows, keys and records are of an
  arbitrary type \<open>'v\<close>, compared with \<open>=\<close> where Python compares tuples with
  \<^verbatim>\<open>==\<close>; rows, key tuples and argument arrays are lists of them.
\<close>

record 'v SQLHandle =
  on_query :: "string \<Rightarrow> 'v list list \<Rightarrow> error + 'v list list"
  on_exec :: "string \<Rightarrow> 'v list list \<Rightarrow> error + int"
  calls :: "(string \<times> 'v list list) list"

definition SQLHandle_query ::
  "'v SQLHandle \<Rightarrow> string \<Rightarrow> 'v list list \<Rightarrow> (error + 'v list list) \<times> 'v SQLHandle" where
  "SQLHandle_query h sql args = (on_query h sql args, h\<lparr>calls := calls h @ [(sql, args)]\<rparr>)"

definition SQLHandle_exec ::
  "'v SQLHandle \<Rightarrow> string \<Rightarrow> 'v list list \<Rightarrow> (error + int) \<times> 'v SQLHandle" where
  "SQLHandle_exec h sql args = (on_exec h sql args, h\<lparr>calls := calls h @ [(sql, args)]\<rparr>)"

text \<open>
  A record (\<^verbatim>\<open>TRecord\<close>, bound by \<^verbatim>\<open>typing.NamedTuple\<close>): its fields in order,
  each with its name. Iterating it gives the values. \<^verbatim>\<open>getattr(rec, name)\<close> finds a
  field by its name; for a name that is no field it finds what the class of the record
  has under that name (the methods \<^verbatim>\<open>count\<close> and \<^verbatim>\<open>index\<close> of tuples, the helpers
  \<^verbatim>\<open>_fields\<close>, \<^verbatim>\<open>_asdict\<close>, \<^verbatim>\<open>_replace\<close> of named tuples, what the class body
  defines), and raises \<^verbatim>\<open>AttributeError\<close> when there is nothing. \<open>class_attr\<close> is the
  class of the records: the object found under a name that is no field, taken as a value,
  or \<open>None\<close>.
\<close>

type_synonym 'v NamedTuple = "(string \<times> 'v) list"

definition getattr_py :: "(string \<Rightarrow> 'v option) \<Rightarrow> 'v NamedTuple \<Rightarrow> string \<Rightarrow> error + 'v" where
  "getattr_py class_attr rec name =
     (case map_of rec name of
        Some v \<Rightarrow> Inr v
      | None \<Rightarrow>
          (case class_attr name of
             Some v \<Rightarrow> Inr v
           | None \<Rightarrow> Inl (AttributeError name)))"

record 'v TableGateway =
  constructor :: "'v list \<Rightarrow> error + 'v NamedTuple"
  meta :: TableMetadata
  newline :: string

text \<open>
  \<^verbatim>\<open>zip(*keys)\<close>: the tuples transposed, cut at the arity of the shortest one; no
  tuple at all gives nothing.
\<close>

function zip_star :: "'a list list \<Rightarrow> 'a list list" where
  "zip_star xss =
     (if xss = [] \<or> [] \<in> set xss then [] else map hd xss # zip_star (map tl xss))"
  by pat_completeness auto
termination
proof (relation "measure (\<lambda>xss. length (hd xss))")
  show "wf (measure (\<lambda>xss::'a list list. length (hd xss)))"
    by simp
next
  fix xss :: "'a list list"
  assume "\<not> (xss = [] \<or> [] \<in> set xss)"
  then show "(map tl xss, xss) \<in> measure (\<lambda>xss. length (hd xss))"
    by (cases xss) auto
qed

declare zip_star.simps [simp del]

text \<open>
  The first exception of a sequence of evaluations, or all their values.
\<close>

fun sequence_err :: "(error + 'a) list \<Rightarrow> error + 'a list" where
  "sequence_err [] = Inr []"
| "sequence_err (Inl e # rs) = Inl e"
| "sequence_err (Inr x # rs) = (case sequence_err rs of Inl e \<Rightarrow> Inl e | Inr xs \<Rightarrow> Inr (x # xs))"

text \<open>
  \<^verbatim>\<open>matches = {c: i for i, c in enumerate(columns) if c.field_name in by}\<close>, as the
  list of its items in insertion order. \<^verbatim>\<open>ColumnMetadata\<close> defines neither
  \<^verbatim>\<open>__eq__\<close> nor \<^verbatim>\<open>__hash__\<close>, so the keys of this dictionary are compared by
  object identity; the column tuple holds one object per position (as the table of
  schemata.py does), so no two entries are merged. \<open>by\<close> is a command of Isabelle; the
  parameter is \<open>by_fields\<close>.
\<close>

definition key_matches :: "ColumnMetadata list \<Rightarrow> (string \<Rightarrow> bool) \<Rightarrow> (ColumnMetadata \<times> nat) list" where
  "key_matches cols selected =
     map (\<lambda>(i, c). (c, i)) (filter (\<lambda>(i, c). selected (field_name c)) (enumerate_py cols))"

text \<open>\<^verbatim>\<open>tuple(row[i] for i in matches.values())\<close>.\<close>

definition row_key :: "'v list \<Rightarrow> nat list \<Rightarrow> error + 'v list" where
  "row_key row idx =
     sequence_err (map (\<lambda>i. if i < length row then Inr (row ! i) else Inl IndexError) idx)"

subsection \<open>get_by\<close>

definition get_by_sql :: "'v TableGateway \<Rightarrow> string list \<Rightarrow> string" where
  "get_by_sql self by_fields =
     (let table = meta self;
          matches = key_matches (columns (meta self)) (\<lambda>f. f \<in> set by_fields);
          kcss = render_selection_set (map fst matches);
          tacss = render_aliased_selection_set ''__t'' (columns (meta self));
          kacss = render_aliased_selection_set ''__k'' (map fst matches)
      in str_join (newline self)
           [''WITH __k AS ('' @ render_unnested_selection (map fst matches) @ '')'',
            ''SELECT DISTINCT ON ('' @ kacss @ '') '' @ tacss,
            ''FROM __k JOIN '' @ q_ident (table_schema table) @ ''.'' @ q_ident (table_name table)
              @ '' AS __t USING ('' @ kcss @ '')''])"

text \<open>
  The loop over the rows: \<^verbatim>\<open>key_objs[key] = obj\<close>, a later row replacing an earlier one
  with the same key.
\<close>

fun get_by_loop ::
  "('v list \<Rightarrow> error + 'r) \<Rightarrow> nat list \<Rightarrow> 'v list list \<Rightarrow> ('v list \<rightharpoonup> 'r) \<Rightarrow> error + ('v list \<rightharpoonup> 'r)" where
  "get_by_loop ctor idx [] key_objs = Inr key_objs"
| "get_by_loop ctor idx (row # rows) key_objs =
     (case row_key row idx of
        Inl e \<Rightarrow> Inl e
      | Inr key \<Rightarrow>
          (case ctor row of
             Inl e \<Rightarrow> Inl e
           | Inr obj \<Rightarrow> get_by_loop ctor idx rows (key_objs(key \<mapsto> obj))))"

definition get_by ::
  "'v TableGateway \<Rightarrow> 'v SQLHandle \<Rightarrow> string list \<Rightarrow> 'v list list
     \<Rightarrow> (error + 'v NamedTuple option list) \<times> 'v SQLHandle" where
  "get_by self sql_handle by_fields keys =
     (let matches = key_matches (columns (meta self)) (\<lambda>f. f \<in> set by_fields);
          sql = get_by_sql self by_fields;
          arguments = zip_star keys;
          (answer, h) = SQLHandle_query sql_handle sql arguments
      in case answer of
           Inl e \<Rightarrow> (Inl e, h)
         | Inr rows \<Rightarrow>
             (case get_by_loop (constructor self) (map snd matches) rows Map.empty of
                Inl e \<Rightarrow> (Inl e, h)
              | Inr key_objs \<Rightarrow> (Inr (map key_objs keys), h)))"

subsection \<open>find_by\<close>

definition find_by_sql :: "'v TableGateway \<Rightarrow> string list \<Rightarrow> string" where
  "find_by_sql self by_fields =
     (let table = meta self;
          matches = key_matches (columns (meta self)) (\<lambda>f. f \<in> set by_fields);
          kcss = render_selection_set (map fst matches);
          tacss = render_aliased_selection_set ''__t'' (columns (meta self))
      in str_join (newline self)
           [''WITH __k AS ('' @ render_unnested_selection (map fst matches) @ '')'',
            ''SELECT '' @ tacss,
            ''FROM __k LEFT JOIN '' @ q_ident (table_schema table) @ ''.''
              @ q_ident (table_name table) @ '' AS __t USING ('' @ kcss @ '')''])"

text \<open>
  The loop over the rows: the list stored under the key, created empty at the key's first
  row, gets the object appended.
\<close>

fun find_by_loop ::
  "('v list \<Rightarrow> error + 'r) \<Rightarrow> nat list \<Rightarrow> 'v list list \<Rightarrow> ('v list \<rightharpoonup> 'r list)
     \<Rightarrow> error + ('v list \<rightharpoonup> 'r list)" where
  "find_by_loop ctor idx [] key_objs = Inr key_objs"
| "find_by_loop ctor idx (row # rows) key_objs =
     (case row_key row idx of
        Inl e \<Rightarrow> Inl e
      | Inr key \<Rightarrow>
          (case ctor row of
             Inl e \<Rightarrow> Inl e
           | Inr obj \<Rightarrow>
               (let objs = (case key_objs key of None \<Rightarrow> [] | Some objs \<Rightarrow> objs)
                in find_by_loop ctor idx rows (key_objs(key \<mapsto> objs @ [obj])))))"

definition find_by ::
  "'v TableGateway \<Rightarrow> 'v SQLHandle \<Rightarrow> string list \<Rightarrow> 'v list list
     \<Rightarrow> (error + 'v NamedTuple list list) \<times> 'v SQLHandle" where
  "find_by self sql_handle by_fields keys =
     (let matches = key_matches (columns (meta self)) (\<lambda>f. f \<in> set by_fields);
          sql = find_by_sql self by_fields;
          arguments = zip_star keys;
          (answer, h) = SQLHandle_query sql_handle sql arguments
      in case answer of
           Inl e \<Rightarrow> (Inl e, h)
         | Inr rows \<Rightarrow>
             (case find_by_loop (constructor self) (map snd matches) rows Map.empty of
                Inl e \<Rightarrow> (Inl e, h)
              | Inr key_objs \<Rightarrow>
                  (Inr (map (\<lambda>key. case key_objs key of None \<Rightarrow> [] | Some objs \<Rightarrow> objs) keys), h)))"

subsection \<open>insert\<close>

definition insert_sql :: "'v TableGateway \<Rightarrow> string" where
  "insert_sql self =
     (let table = meta self
      in str_join (newline self)
           [''WITH __v AS ('' @ render_unnested_selection (columns (meta self)) @ '')'',
            ''INSERT INTO '' @ q_ident (table_schema table) @ ''.'' @ q_ident (table_name table),
            ''SELECT * FROM __v''])"

text \<open>
  \<^verbatim>\<open>insert\<close> (\<open>insert\<close> is a constant of HOL's sets, so the method carries a suffix).
  The count that \<^verbatim>\<open>exec\<close> returns is dropped.
\<close>

definition insert_records ::
  "'v TableGateway \<Rightarrow> 'v SQLHandle \<Rightarrow> 'v NamedTuple list \<Rightarrow> (error + unit) \<times> 'v SQLHandle" where
  "insert_records self sql_handle records =
     (let sql = insert_sql self;
          arguments = zip_star (map (map snd) records);
          (answer, h) = SQLHandle_exec sql_handle sql arguments
      in case answer of Inl e \<Rightarrow> (Inl e, h) | Inr n \<Rightarrow> (Inr (), h))"

subsection \<open>save\<close>

text \<open>
  \<^verbatim>\<open>'Table {}.{} has no primary key'.format(table.table_schema, table.table_name)\<close>.
\<close>

definition no_primary_key :: "TableMetadata \<Rightarrow> error" where
  "no_primary_key table =
     Exception (''Table '' @ table_schema table @ ''.'' @ table_name table
                @ '' has no primary key'')"

text \<open>
  In \<^verbatim>\<open>save\<close>, \<^verbatim>\<open>matches\<close> and \<^verbatim>\<open>setters\<close> are sets of column objects, and the
  interpreter iterates such a set in an order of its own. \<open>set_iter\<close> is that order: it
  takes the members in column order and returns them as the set yields them. The two
  f-strings of the fourth and fifth line of the statement stand next to each other with
  no comma between them, so they are one element of the joined tuple.
\<close>

definition save_sql :: "'v TableGateway \<Rightarrow> (ColumnMetadata list \<Rightarrow> ColumnMetadata list) \<Rightarrow> string set \<Rightarrow> string" where
  "save_sql self set_iter pk =
     (let table = meta self;
          matches = set_iter (filter (\<lambda>c. field_name c \<in> pk) (columns (meta self)));
          setters = set_iter (filter (\<lambda>c. field_name c \<notin> pk) (columns (meta self)));
          kcss = render_selection_set matches;
          tcss = render_selection_set (columns (meta self));
          vacss = render_aliased_selection_set ''__v'' (columns (meta self))
      in str_join (newline self)
           [''WITH __v AS ('' @ render_unnested_selection (columns (meta self)) @ '')'',
            ''INSERT INTO '' @ q_ident (table_schema table) @ ''.'' @ q_ident (table_name table)
              @ '' AS __t'',
            ''SELECT * FROM __v'',
            ''ON CONFILICT ('' @ kcss @ '') DO UPDATE ('' @ tcss @ '') = ('' @ vacss @ '')''
              @ ''WHERE '' @ render_tk_match ''__t'' ''__v'' setters])"

definition save ::
  "'v TableGateway \<Rightarrow> (ColumnMetadata list \<Rightarrow> ColumnMetadata list) \<Rightarrow> 'v SQLHandle
     \<Rightarrow> 'v NamedTuple list \<Rightarrow> (error + unit) \<times> 'v SQLHandle" where
  "save self set_iter sql_handle records =
     (case primary_key (meta self) of
        None \<Rightarrow> (Inl (no_primary_key (meta self)), sql_handle)
      | Some pk \<Rightarrow>
          if pk = {} then (Inl (no_primary_key (meta self)), sql_handle)
          else
            (let sql = save_sql self set_iter pk;
                 arguments = zip_star (map (map snd) records);
                 (answer, h) = SQLHandle_exec sql_handle sql arguments
             in case answer of Inl e \<Rightarrow> (Inl e, h) | Inr n \<Rightarrow> (Inr (), h)))"

subsection \<open>delete\<close>

definition delete_sql :: "'v TableGateway \<Rightarrow> string set \<Rightarrow> string" where
  "delete_sql self pk =
     (let table = meta self;
          matches = key_matches (columns (meta self)) (\<lambda>f. f \<in> pk)
      in str_join (newline self)
           [''WITH __k AS ('' @ render_unnested_selection (map fst matches) @ '')'',
            ''DELETE FROM '' @ q_ident (table_schema table) @ ''.'' @ q_ident (table_name table)
              @ '' AS __t'',
            ''USING __k WHERE '' @ render_tk_match ''__t'' ''__k'' (map fst matches)])"

text \<open>
  The arguments of \<^verbatim>\<open>delete\<close>, one array per key column:
  \<^verbatim>\<open>[getattr(rec, col.column_name) for rec in records] for col in matches\<close>. The
  generator is consumed when the call to \<^verbatim>\<open>exec\<close> unpacks it, so an
  \<^verbatim>\<open>AttributeError\<close> comes before the statement is dispatched.
\<close>

definition delete_arguments ::
  "(string \<Rightarrow> 'v option) \<Rightarrow> ColumnMetadata list \<Rightarrow> 'v NamedTuple list
     \<Rightarrow> error + 'v list list" where
  "delete_arguments class_attr cols records =
     sequence_err
       (map (\<lambda>col. sequence_err
               (map (\<lambda>rec. getattr_py class_attr rec (column_name col)) records)) cols)"

definition delete ::
  "'v TableGateway \<Rightarrow> (string \<Rightarrow> 'v option) \<Rightarrow> 'v SQLHandle \<Rightarrow> 'v NamedTuple list
     \<Rightarrow> (error + unit) \<times> 'v SQLHandle" where
  "delete self class_attr sql_handle records =
     (case primary_key (meta self) of
        None \<Rightarrow> (Inl (no_primary_key (meta self)), sql_handle)
      | Some pk \<Rightarrow>
          if pk = {} then (Inl (no_primary_key (meta self)), sql_handle)
          else
            (let matches = key_matches (columns (meta self)) (\<lambda>f. f \<in> pk);
                 sql = delete_sql self pk
             in case delete_arguments class_attr (map fst matches) records of
                  Inl e \<Rightarrow> (Inl e, sql_handle)
                | Inr arguments \<Rightarrow>
                    (let (answer, h) = SQLHandle_exec sql_handle sql arguments
                     in case answer of Inl e \<Rightarrow> (Inl e, h) | Inr n \<Rightarrow> (Inr (), h))))"

section \<open>The transaction scopes of the test handle (query_test.py)\<close>

text \<open>
  \<^verbatim>\<open>TestSQLHandle\<close>. \<^verbatim>\<open>__init__\<close> stores in \<^verbatim>\<open>self.conn\<close> what
  \<^verbatim>\<open>asyncpg.connect(..)\<close> returns without awaiting it, a coroutine object, and
  \<^verbatim>\<open>aquire_connection\<close> awaits that object at every call. A coroutine object can be
  awaited once: the first await yields the connection (connecting is the driver's and is
  taken to succeed), every later one raises \<^verbatim>\<open>RuntimeError\<close>. \<open>conn_awaited\<close> says
  whether the stored object has been awaited; \<open>conn\<close> is the connection, as the
  statements passed to its \<^verbatim>\<open>execute\<close>, oldest first, whatever the driver answers to
  them.
\<close>

record TestSQLHandle =
  conn :: "string list"
  conn_awaited :: bool
  tx_level :: int

definition TestSQLHandle_init :: TestSQLHandle where
  "TestSQLHandle_init = \<lparr>conn = [], conn_awaited = False, tx_level = 0\<rparr>"

definition aquire_connection :: "TestSQLHandle \<Rightarrow> error + TestSQLHandle" where
  "aquire_connection self =
     (if conn_awaited self then Inl RuntimeError else Inr (self\<lparr>conn_awaited := True\<rparr>))"

text \<open>
  \<^verbatim>\<open>Tx\<close>: its \<^verbatim>\<open>level\<close>; its \<^verbatim>\<open>conn\<close> is the connection of the handle that made
  it.
\<close>

record Tx =
  level :: int

text \<open>
  \<^verbatim>\<open>transaction()\<close>: \<^verbatim>\<open>conn = await self.aquire_connection()\<close>,
  \<^verbatim>\<open>tx = self.Tx(conn, self.tx_level)\<close>, \<^verbatim>\<open>self.tx_level += 1\<close>,
  \<^verbatim>\<open>return tx\<close>.
\<close>

definition transaction :: "TestSQLHandle \<Rightarrow> (error + Tx) \<times> TestSQLHandle" where
  "transaction self =
     (case aquire_connection self of
        Inl e \<Rightarrow> (Inl e, self)
      | Inr self' \<Rightarrow> (Inr \<lparr>level = tx_level self'\<rparr>, self'\<lparr>tx_level := tx_level self' + 1\<rparr>))"

definition conn_execute :: "string \<Rightarrow> TestSQLHandle \<Rightarrow> TestSQLHandle" where
  "conn_execute stmt self = self\<lparr>conn := conn self @ [stmt]\<rparr>"

definition aenter :: "Tx \<Rightarrow> TestSQLHandle \<Rightarrow> TestSQLHandle" where
  \<open>aenter tx self =
     (if level tx = 0 then conn_execute ''BEGIN TRANSACTION;'' self
      else conn_execute (''SAVEPOINT "'' @ str_int (level tx) @ ''";'') self)\<close>

text \<open>
  The \<^verbatim>\<open>exc_value\<close> that \<^verbatim>\<open>__aexit__\<close> receives: \<^verbatim>\<open>None\<close> when the block ended
  normally, an instance of \<^verbatim>\<open>Exception\<close>, or an exception outside that class
  (\<^verbatim>\<open>KeyboardInterrupt\<close>, a cancellation), for which
  \<^verbatim>\<open>isinstance(exc_value, Exception)\<close> is false.
\<close>

datatype exc_value = NoException | ExceptionInstance | OtherBaseException

definition aexit :: "Tx \<Rightarrow> exc_value \<Rightarrow> TestSQLHandle \<Rightarrow> TestSQLHandle" where
  \<open>aexit tx exc self =
     (if exc = ExceptionInstance then
        (if level tx = 0 then conn_execute ''ROLLBACK;'' self
         else conn_execute (''ROLLBACK TO SAVEPOINT "'' @ str_int (level tx)) self)
      else
        (if level tx = 0 then conn_execute ''COMMIT;'' self
         else conn_execute (''RELEASE SAVEPOINT "'' @ str_int (level tx)) self))\<close>

section \<open>Example tables\<close>

text \<open>The table of schemata.py; it is declared without a primary key.\<close>

definition name_column :: "string \<Rightarrow> ColumnMetadata" where
  "name_column n =
     \<lparr>column_name = n, field_name = n, sql_data_type = ''name'', is_array = False\<rparr>"

definition Schemata_meta :: TableMetadata where
  "Schemata_meta =
     \<lparr>table_schema = ''information_schema'', table_name = ''schemata'',
      columns =
        [name_column ''catalog_name'', name_column ''schema_name'',
         name_column ''schema_owner'', name_column ''default_character_set_catalog'',
         name_column ''default_character_set_schema'',
         name_column ''default_character_set_name'',
         \<lparr>column_name = ''sql_path'', field_name = ''sql_path'',
          sql_data_type = ''character varying'', is_array = False\<rparr>],
      primary_key = None\<rparr>"

text \<open>\<^verbatim>\<open>lambda values: Schemata(*values)\<close>: seven values make a record.\<close>

definition Schemata_constructor :: "string list \<Rightarrow> error + string NamedTuple" where
  "Schemata_constructor vals =
     (if length vals = 7
      then Inr (zip (map column_name (columns Schemata_meta)) vals)
      else Inl (Raised ''TypeError''))"

definition Schemata_Table :: "string TableGateway" where
  "Schemata_Table =
     \<lparr>constructor = Schemata_constructor, meta = Schemata_meta, newline = [CHR 0x0A]\<rparr>"

text \<open>
  A table with the columns \<open>id\<close> and \<open>name\<close> and the primary key \<open>id\<close>, and a
  handle that answers every query with the given rows and has dispatched nothing yet. The
  values of the examples are strings.
\<close>

definition item_meta :: TableMetadata where
  "item_meta =
     \<lparr>table_schema = ''public'', table_name = ''item'',
      columns =
        [\<lparr>column_name = ''id'', field_name = ''id'', sql_data_type = ''int'', is_array = False\<rparr>,
         \<lparr>column_name = ''name'', field_name = ''name'', sql_data_type = ''text'',
          is_array = False\<rparr>],
      primary_key = Some {''id''}\<rparr>"

definition item_constructor :: "string list \<Rightarrow> error + string NamedTuple" where
  "item_constructor vals =
     (if length vals = 2 then Inr (zip [''id'', ''name''] vals) else Inl (Raised ''TypeError''))"

definition item_Table :: "string TableGateway" where
  "item_Table = \<lparr>constructor = item_constructor, meta = item_meta, newline = [CHR 0x0A]\<rparr>"

definition answering :: "'v list list \<Rightarrow> 'v SQLHandle" where
  "answering rows = \<lparr>on_query = (\<lambda>sql args. Inr rows), on_exec = (\<lambda>sql args. Inr 0), calls = []\<rparr>"

section \<open>Quoting as the specification words it\<close>

text \<open>
  The specification of \<^verbatim>\<open>quote_identifier\<close>: the name between double quotes, every
  double quote inside it doubled. This definition follows those words; \<open>q_ident\<close> above
  follows the source.
\<close>

definition quote_identifier_spec :: "string \<Rightarrow> string" where
  \<open>quote_identifier_spec name =
     ''"'' @ concat (map (\<lambda>c. if c = CHR 0x22 then ''""'' else [c]) name) @ ''"''\<close>

section \<open>Quoting and rendering: properties\<close>

lemma str_replace_single:
  "str_replace [c] [c, c] s = concat (map (\<lambda>x. if x = c then [c, c] else [x]) s)"
  by (induction s) auto

lemma length_concat_doubling:
  "length (concat (map (\<lambda>x. if x = c then [c, c] else [x]) s)) = length s + count_list s c"
  by (induction s) auto

text \<open>
  Claim C9. For every name, \<^verbatim>\<open>_q\<close> returns the name between double quotes with every
  double quote of the name doubled: it is the function the specification describes. It is
  total. One application adds, beyond the two enclosing quotes, exactly one character per
  double quote of the name, so no quote is escaped twice.
\<close>

theorem q_ident_doubles_quotes:
  "q_ident name = quote_identifier_spec name
   \<and> length (q_ident name) = length name + count_list name (CHR 0x22) + 2
   \<and> hd (q_ident name) = CHR 0x22 \<and> last (q_ident name) = CHR 0x22"
  by (simp add: q_ident_def quote_identifier_spec_def str_replace_single length_concat_doubling)




lemma length_unnest_placeholders: "length (unnest_placeholders cols) = length cols"
  by (simp add: unnest_placeholders_def enumerate_py_def)

lemma nth_unnest_placeholders:
  "i < length cols \<Longrightarrow>
   unnest_placeholders cols ! i
     = ''$'' @ str_int (int i + 1) @ ''::'' @ sql_data_type (cols ! i) @ ''[]''"
  by (simp add: unnest_placeholders_def enumerate_py_def)

text \<open>
  Claim C7. For every sequence of M columns the unnesting renderer returns
  \<^verbatim>\<open>SELECT DISTINCT ON (__k.*) __k.* AS __n FROM UNNEST(p1, ..., pM) AS __k(c1, ..., cM)\<close>
  where the i-th placeholder (counted from 1) is \<^verbatim>\<open>$i::Ti[]\<close> with \<^verbatim>\<open>Ti\<close> the
  \<^verbatim>\<open>sql_data_type\<close> of the i-th column, and \<^verbatim>\<open>ci\<close> is the quoted name of the i-th
  column; both lists are in the order of the columns and joined with a comma and a blank.
\<close>

theorem render_unnested_selection_shape:
  "render_unnested_selection cols =
     ''SELECT DISTINCT ON (__k.*) __k.* AS __n FROM UNNEST(''
     @ str_join '', '' (unnest_placeholders cols)
     @ '') AS __k('' @ str_join '', '' (map (\<lambda>c. q_ident (column_name c)) cols) @ '')''
   \<and> length (unnest_placeholders cols) = length cols
   \<and> (\<forall>i<length cols.
        unnest_placeholders cols ! i
          = ''$'' @ str_nat (i + 1) @ ''::'' @ sql_data_type (cols ! i) @ ''[]'')"
  by (simp add: render_unnested_selection_def render_selection_set_def render_list_def
      length_unnest_placeholders nth_unnest_placeholders str_int_def nat_add_distrib)

theorem render_unnested_selection_shape_witness:
  \<open>(1::nat) < length (columns item_meta)
   \<and> unnest_placeholders (columns item_meta) ! 1 = ''$2::text[]''
   \<and> render_unnested_selection (columns item_meta) =
       ''SELECT DISTINCT ON (__k.*) __k.* AS __n FROM UNNEST($1::int[], $2::text[]) AS __k("id", "name")''\<close>
proof -
  have cols: "columns item_meta =
      [\<lparr>column_name = ''id'', field_name = ''id'', sql_data_type = ''int'', is_array = False\<rparr>,
       \<lparr>column_name = ''name'', field_name = ''name'', sql_data_type = ''text'',
        is_array = False\<rparr>]"
    by (simp add: item_meta_def)
  have two: "str_nat (Suc (Suc 0)) = ''2''"
    by (simp add: str_nat.simps)
  have whole: \<open>render_unnested_selection (columns item_meta) =
       ''SELECT DISTINCT ON (__k.*) __k.* AS __n FROM UNNEST($1::int[], $2::text[]) AS __k("id", "name")''\<close>
    by code_simp
  from render_unnested_selection_shape [of "columns item_meta"]
  have "unnest_placeholders (columns item_meta) ! 1
          = ''$'' @ str_nat (1 + 1) @ ''::'' @ sql_data_type (columns item_meta ! 1) @ ''[]''"
    by (simp add: cols)
  then show ?thesis
    by (simp add: cols two whole [unfolded cols])
qed

section \<open>The argument arrays of a batch\<close>

lemma zip_star_empty: "xss = [] \<or> [] \<in> set xss \<Longrightarrow> zip_star xss = []"
  by (subst zip_star.simps) simp

lemma zip_star_step:
  "xss \<noteq> [] \<Longrightarrow> [] \<notin> set xss \<Longrightarrow> zip_star xss = map hd xss # zip_star (map tl xss)"
  by (subst zip_star.simps) simp

lemma tl_nth_Suc: "x \<noteq> [] \<Longrightarrow> tl x ! j = x ! Suc j"
  by (cases x) simp_all

lemma length_zip_star_le: "xs \<in> set xss \<Longrightarrow> length (zip_star xss) \<le> length xs"
proof (induction xss arbitrary: xs rule: zip_star.induct)
  case (1 xss)
  show ?case
  proof (cases "xss = [] \<or> [] \<in> set xss")
    case True
    then show ?thesis by (simp add: zip_star_empty)
  next
    case False
    then have step: "zip_star xss = map hd xss # zip_star (map tl xss)"
      by (simp add: zip_star_step)
    from False "1.prems" have "xs \<noteq> []" by auto
    have "tl xs \<in> set (map tl xss)"
      using "1.prems" by simp
    with False have "length (zip_star (map tl xss)) \<le> length (tl xs)"
      by (intro "1.IH") 
    with \<open>xs \<noteq> []\<close> show ?thesis
      by (cases xs) (simp_all add: step)
  qed
qed

lemma length_zip_star_attained:
  "xss \<noteq> [] \<Longrightarrow> \<exists>xs\<in>set xss. length (zip_star xss) = length xs"
proof (induction xss rule: zip_star.induct)
  case (1 xss)
  show ?case
  proof (cases "[] \<in> set xss")
    case True
    then have "zip_star xss = []" by (simp add: zip_star_empty)
    with True show ?thesis by force
  next
    case False
    with "1.prems" have step: "zip_star xss = map hd xss # zip_star (map tl xss)"
      by (simp add: zip_star_step)
    from "1.prems" False have "\<exists>ys\<in>set (map tl xss). length (zip_star (map tl xss)) = length ys"
      by (intro "1.IH") simp_all
    then obtain xs where xs: "xs \<in> set xss" "length (zip_star (map tl xss)) = length (tl xs)"
      by auto
    with False have "xs \<noteq> []" by auto
    then have "0 < length xs"
      by simp
    then have "length (zip_star xss) = length xs"
      by (simp add: step xs(2))
    with xs(1) show ?thesis by blast
  qed
qed

lemma length_zip_star_elem: "a \<in> set (zip_star xss) \<Longrightarrow> length a = length xss"
proof (induction xss arbitrary: a rule: zip_star.induct)
  case (1 xss)
  show ?case
  proof (cases "xss = [] \<or> [] \<in> set xss")
    case True
    with "1.prems" show ?thesis by (simp add: zip_star_empty)
  next
    case False
    then have step: "zip_star xss = map hd xss # zip_star (map tl xss)"
      by (simp add: zip_star_step)
    from "1.prems" consider "a = map hd xss" | "a \<in> set (zip_star (map tl xss))"
      by (auto simp: step)
    then show ?thesis
    proof cases
      case 1
      then show ?thesis by simp
    next
      case 2
      with False have "length a = length (map tl xss)"
        by (intro "1.IH")
      then show ?thesis by simp
    qed
  qed
qed

lemma zip_star_nth:
  "j < length (zip_star xss) \<Longrightarrow> zip_star xss ! j = map (\<lambda>xs. xs ! j) xss"
proof (induction xss arbitrary: j rule: zip_star.induct)
  case (1 xss)
  show ?case
  proof (cases "xss = [] \<or> [] \<in> set xss")
    case True
    with "1.prems" show ?thesis by (simp add: zip_star_empty)
  next
    case False
    then have step: "zip_star xss = map hd xss # zip_star (map tl xss)"
      by (simp add: zip_star_step)
    show ?thesis
    proof (cases j)
      case 0
      have "map hd xss = map (\<lambda>xs. xs ! 0) xss"
        using False by (intro map_cong refl) (metis hd_conv_nth)
      with 0 show ?thesis by (simp add: step)
    next
      case (Suc j')
      with "1.prems" have "j' < length (zip_star (map tl xss))"
        by (simp add: step)
      with False have "zip_star (map tl xss) ! j' = map (\<lambda>xs. xs ! j') (map tl xss)"
        by (intro "1.IH")
      moreover have "tl x ! j' = x ! Suc j'" if "x \<in> set xss" for x
        using that False by (metis tl_nth_Suc)
      then have "map (\<lambda>xs. xs ! j') (map tl xss) = map (\<lambda>xs. xs ! Suc j') xss"
        by simp
      ultimately show ?thesis
        using Suc by (simp add: step)
    qed
  qed
qed

lemma snd_get_by:
  "snd (get_by self h by_fields keys)
     = h\<lparr>calls := calls h @ [(get_by_sql self by_fields, zip_star keys)]\<rparr>"
  by (simp add: get_by_def SQLHandle_query_def Let_def split: sum.split)

lemma snd_find_by:
  "snd (find_by self h by_fields keys)
     = h\<lparr>calls := calls h @ [(find_by_sql self by_fields, zip_star keys)]\<rparr>"
  by (simp add: find_by_def SQLHandle_query_def Let_def split: sum.split)

lemma snd_insert_records:
  "snd (insert_records self h records)
     = h\<lparr>calls := calls h @ [(insert_sql self, zip_star (map (map snd) records))]\<rparr>"
  by (simp add: insert_records_def SQLHandle_exec_def Let_def split: sum.split)

lemma snd_save:
  "primary_key (meta self) = Some pk \<Longrightarrow> pk \<noteq> {} \<Longrightarrow>
   snd (save self set_iter h records)
     = h\<lparr>calls := calls h @ [(save_sql self set_iter pk, zip_star (map (map snd) records))]\<rparr>"
  by (simp add: save_def SQLHandle_exec_def Let_def split: sum.split)

text \<open>
  Claim C3 as the specification states it asks for a validation error before dispatch when
  the tuples of a batch differ in arity. \<^verbatim>\<open>get_by\<close> with the keys
  \<^verbatim>\<open>('1', 'a')\<close> and \<^verbatim>\<open>('2',)\<close> returns a result, and the statement has been
  dispatched with the single array \<^verbatim>\<open>['1', '2']\<close>: the value \<^verbatim>\<open>'a'\<close> is dropped.
\<close>

theorem mismatched_arity_dispatched:
  \<open>fst (get_by item_Table (answering []) [''id'', ''name''] [[''1'', ''a''], [''2'']])
     = Inr [None, None]
   \<and> map snd (calls (snd (get_by item_Table (answering []) [''id'', ''name'']
         [[''1'', ''a''], [''2'']]))) = [[[''1'', ''2'']]]\<close>
proof -
  have z: "zip_star [[''1'', ''a''], [''2'']] = [[''1'', ''2'']]"
    by (simp add: zip_star.simps)
  show ?thesis
    by (simp add: get_by_def SQLHandle_query_def Let_def answering_def z)
qed

lemma sequence_err_Inr:
  "sequence_err rs = Inr ys \<Longrightarrow> list_all2 (\<lambda>r y. r = Inr y) rs ys"
proof (induction rs arbitrary: ys rule: sequence_err.induct)
  case 1
  then show ?case by simp
next
  case (2 e rs)
  then show ?case by simp
next
  case (3 x rs)
  then show ?case
    by (auto split: sum.splits)
qed

lemma sequence_err_Inl: "sequence_err rs = Inl e \<Longrightarrow> Inl e \<in> set rs"
  by (induction rs rule: sequence_err.induct) (auto split: sum.splits)

lemma delete_arguments_Inr:
  assumes "delete_arguments class_attr cols records = Inr args"
  shows "length args = length cols" and "\<forall>a\<in>set args. length a = length records"
proof -
  let ?column = "\<lambda>col. sequence_err
      (map (\<lambda>rec. getattr_py class_attr rec (column_name col)) records)"
  from assms have all2: "list_all2 (\<lambda>r y. r = Inr y) (map ?column cols) args"
    unfolding delete_arguments_def by (rule sequence_err_Inr)
  then show "length args = length cols"
    by (auto dest: list_all2_lengthD)
  show "\<forall>a\<in>set args. length a = length records"
  proof
    fix a
    assume "a \<in> set args"
    then obtain i where i: "i < length args" "args ! i = a"
      by (auto simp: in_set_conv_nth)
    with all2 have "map ?column cols ! i = Inr a"
      by (auto dest: list_all2_nthD2)
    moreover from i all2 have "i < length cols"
      by (auto dest: list_all2_lengthD)
    ultimately have "?column (cols ! i) = Inr a"
      by simp
    then have "list_all2 (\<lambda>r y. r = Inr y)
        (map (\<lambda>rec. getattr_py class_attr rec (column_name (cols ! i))) records) a"
      by (rule sequence_err_Inr)
    then show "length a = length records"
      by (auto dest: list_all2_lengthD)
  qed
qed

lemma delete_arguments_Inl:
  assumes "delete_arguments class_attr cols records = Inl e"
  shows "\<exists>c\<in>set cols. \<exists>rec\<in>set records. getattr_py class_attr rec (column_name c) = Inl e"
proof -
  from assms have "Inl e \<in> set (map (\<lambda>col. sequence_err
      (map (\<lambda>rec. getattr_py class_attr rec (column_name col)) records)) cols)"
    unfolding delete_arguments_def by (rule sequence_err_Inl)
  then obtain c where c: "c \<in> set cols"
    and "sequence_err (map (\<lambda>rec. getattr_py class_attr rec (column_name c)) records) = Inl e"
    by auto
  then have "Inl e \<in> set (map (\<lambda>rec. getattr_py class_attr rec (column_name c)) records)"
    by (intro sequence_err_Inl)
  then obtain rec where "rec \<in> set records"
    and "Inl e = getattr_py class_attr rec (column_name c)"
    by auto
  with c show ?thesis
    by metis
qed

lemma delete_raises:
  "primary_key (meta self) = Some pk \<Longrightarrow> pk \<noteq> {} \<Longrightarrow>
   delete_arguments class_attr (map fst (key_matches (columns (meta self)) (\<lambda>f. f \<in> pk)))
     records = Inl e \<Longrightarrow>
   delete self class_attr h records = (Inl e, h)"
  by (simp add: delete_def Let_def)

lemma snd_delete:
  "primary_key (meta self) = Some pk \<Longrightarrow> pk \<noteq> {} \<Longrightarrow>
   delete_arguments class_attr (map fst (key_matches (columns (meta self)) (\<lambda>f. f \<in> pk)))
     records = Inr args \<Longrightarrow>
   snd (delete self class_attr h records) = h\<lparr>calls := calls h @ [(delete_sql self pk, args)]\<rparr>"
  by (simp add: delete_def SQLHandle_exec_def Let_def split: sum.split)

text \<open>
  Claim C3, amended. No gateway operation compares the arities of the tuples of a batch.
  \<^verbatim>\<open>get_by\<close>, \<^verbatim>\<open>find_by\<close>, \<^verbatim>\<open>insert\<close> and, on a table with a primary key,
  \<^verbatim>\<open>save\<close> dispatch their statement with \<^verbatim>\<open>zip(*batch)\<close> as arguments, whatever the
  arities. That is one array per position up to the arity of the shortest tuple: it is no
  longer than any tuple, as long as one of them when there is a tuple, its j-th array holds
  the j-th value of every tuple, and every array has as many values as the batch has
  tuples. \<^verbatim>\<open>delete\<close>, on a table with a primary key, reads every key column by its name
  from every record. When one of these lookups raises, \<^verbatim>\<open>delete\<close> raises the same
  \<^verbatim>\<open>AttributeError\<close> and nothing is dispatched; otherwise it dispatches its statement
  with one array per key column, each with one value per record.
\<close>

theorem batch_arguments_truncated:
  "calls (snd (get_by self h by_fields keys))
     = calls h @ [(get_by_sql self by_fields, zip_star keys)]
   \<and> calls (snd (find_by self h by_fields keys))
     = calls h @ [(find_by_sql self by_fields, zip_star keys)]
   \<and> calls (snd (insert_records self h records))
     = calls h @ [(insert_sql self, zip_star (map (map snd) records))]
   \<and> (\<forall>pk. primary_key (meta self) = Some pk \<and> pk \<noteq> {} \<longrightarrow>
         calls (snd (save self set_iter h records))
           = calls h @ [(save_sql self set_iter pk, zip_star (map (map snd) records))])
   \<and> (\<forall>k\<in>set keys. length (zip_star keys) \<le> length k)
   \<and> (keys \<noteq> [] \<longrightarrow> (\<exists>k\<in>set keys. length (zip_star keys) = length k))
   \<and> (\<forall>a\<in>set (zip_star keys). length a = length keys)
   \<and> (\<forall>j<length (zip_star keys). zip_star keys ! j = map (\<lambda>k. k ! j) keys)
   \<and> (\<forall>pk e. primary_key (meta self) = Some pk \<and> pk \<noteq> {}
         \<and> delete_arguments class_attr
               (map fst (key_matches (columns (meta self)) (\<lambda>f. f \<in> pk))) records = Inl e
         \<longrightarrow> delete self class_attr h records = (Inl e, h)
             \<and> (\<exists>c\<in>set (map fst (key_matches (columns (meta self)) (\<lambda>f. f \<in> pk))).
                  \<exists>rec\<in>set records.
                    getattr_py class_attr rec (column_name c) = Inl e
                    \<and> e = AttributeError (column_name c)))
   \<and> (\<forall>pk args. primary_key (meta self) = Some pk \<and> pk \<noteq> {}
         \<and> delete_arguments class_attr
               (map fst (key_matches (columns (meta self)) (\<lambda>f. f \<in> pk))) records = Inr args
         \<longrightarrow> calls (snd (delete self class_attr h records))
               = calls h @ [(delete_sql self pk, args)]
             \<and> length args
                 = length (key_matches (columns (meta self)) (\<lambda>f. f \<in> pk))
             \<and> (\<forall>a\<in>set args. length a = length records))"
proof (intro conjI allI impI ballI)
  show "calls (snd (get_by self h by_fields keys))
     = calls h @ [(get_by_sql self by_fields, zip_star keys)]"
    by (simp add: snd_get_by)
  show "calls (snd (find_by self h by_fields keys))
     = calls h @ [(find_by_sql self by_fields, zip_star keys)]"
    by (simp add: snd_find_by)
  show "calls (snd (insert_records self h records))
     = calls h @ [(insert_sql self, zip_star (map (map snd) records))]"
    by (simp add: snd_insert_records)
  show "calls (snd (save self set_iter h records))
           = calls h @ [(save_sql self set_iter pk, zip_star (map (map snd) records))]"
    if "primary_key (meta self) = Some pk \<and> pk \<noteq> {}" for pk
    using that by (simp add: snd_save)
  show "length (zip_star keys) \<le> length k" if "k \<in> set keys" for k
    using that by (rule length_zip_star_le)
  show "\<exists>k\<in>set keys. length (zip_star keys) = length k" if "keys \<noteq> []"
    using that by (rule length_zip_star_attained)
  show "length a = length keys" if "a \<in> set (zip_star keys)" for a
    using that by (rule length_zip_star_elem)
  show "zip_star keys ! j = map (\<lambda>k. k ! j) keys" if "j < length (zip_star keys)" for j
    using that by (rule zip_star_nth)
next
  fix pk e
  assume a: "primary_key (meta self) = Some pk \<and> pk \<noteq> {}
         \<and> delete_arguments class_attr
               (map fst (key_matches (columns (meta self)) (\<lambda>f. f \<in> pk))) records = Inl e"
  then show "delete self class_attr h records = (Inl e, h)"
    by (simp add: delete_raises)
  from a obtain c rec
    where c: "c \<in> set (map fst (key_matches (columns (meta self)) (\<lambda>f. f \<in> pk)))"
      and r: "rec \<in> set records"
      and g: "getattr_py class_attr rec (column_name c) = Inl e"
    using delete_arguments_Inl by blast
  from g have "e = AttributeError (column_name c)"
    by (auto simp: getattr_py_def split: option.splits)
  with c r g
  show "\<exists>c\<in>set (map fst (key_matches (columns (meta self)) (\<lambda>f. f \<in> pk))).
          \<exists>rec\<in>set records.
            getattr_py class_attr rec (column_name c) = Inl e
            \<and> e = AttributeError (column_name c)"
    by blast
next
  fix pk args
  assume a: "primary_key (meta self) = Some pk \<and> pk \<noteq> {}
         \<and> delete_arguments class_attr
               (map fst (key_matches (columns (meta self)) (\<lambda>f. f \<in> pk))) records = Inr args"
  then show "calls (snd (delete self class_attr h records))
               = calls h @ [(delete_sql self pk, args)]"
    by (simp add: snd_delete)
  from a show "length args = length (key_matches (columns (meta self)) (\<lambda>f. f \<in> pk))"
    using delete_arguments_Inr(1) by fastforce
  from a have "\<forall>a\<in>set args. length a = length records"
    using delete_arguments_Inr(2) by blast
  then show "length a = length records" if "a \<in> set args" for a
    using that by blast
qed

theorem batch_arguments_truncated_witness:
  "primary_key (meta item_Table) = Some {''id''} \<and> {''id''} \<noteq> ({}::string set)
   \<and> [''2''] \<in> set [[''1'', ''a''], [''2'']]
   \<and> [[''1'', ''a''], [''2'']] \<noteq> []
   \<and> zip_star [[''1'', ''a''], [''2'']] = [[''1'', ''2'']]
   \<and> length (zip_star [[''1'', ''a''], [''2'']]) \<le> length [''2'']
   \<and> calls (snd (save item_Table (\<lambda>cs. cs) (answering [])
          [[(''id'', ''1''), (''name'', ''a'')], [(''id'', ''2'')]]))
       = [(save_sql item_Table (\<lambda>cs. cs) {''id''}, [[''1'', ''2'']])]
   \<and> delete_arguments (\<lambda>n. None)
         (map fst (key_matches (columns (meta item_Table)) (\<lambda>f. f \<in> {''id''})))
         [[(''id'', ''1''), (''name'', ''a'')], [(''name'', ''b'')]]
       = Inl (AttributeError ''id'')
   \<and> delete item_Table (\<lambda>n. None) (answering [])
         [[(''id'', ''1''), (''name'', ''a'')], [(''name'', ''b'')]]
       = (Inl (AttributeError ''id''), answering [])
   \<and> delete_arguments (\<lambda>n. None)
         (map fst (key_matches (columns (meta item_Table)) (\<lambda>f. f \<in> {''id''})))
         [[(''id'', ''1''), (''name'', ''a'')], [(''id'', ''2'')]]
       = Inr [[''1'', ''2'']]
   \<and> calls (snd (delete item_Table (\<lambda>n. None) (answering [])
          [[(''id'', ''1''), (''name'', ''a'')], [(''id'', ''2'')]]))
       = [(delete_sql item_Table {''id''}, [[''1'', ''2'']])]"
proof -
  let ?keys = "[[''1'', ''a''], [''2'']]"
  let ?records = "[[(''id'', ''1''), (''name'', ''a'')], [(''id'', ''2'')]]"
  let ?lacking = "[[(''id'', ''1''), (''name'', ''a'')], [(''name'', ''b'')]]"
  let ?none = "\<lambda>n::string. None :: string option"
  have pk: "primary_key (meta item_Table) = Some {''id''} \<and> {''id''} \<noteq> ({}::string set)"
    by (simp add: item_Table_def item_meta_def)
  have z: "zip_star ?keys = [[''1'', ''2'']]"
    by (simp add: zip_star.simps)
  have cols: "map fst (key_matches (columns (meta item_Table)) (\<lambda>f. f \<in> {''id''}))
      = [\<lparr>column_name = ''id'', field_name = ''id'', sql_data_type = ''int'',
          is_array = False\<rparr>]"
    by (simp add: item_Table_def item_meta_def key_matches_def enumerate_py_def)
  have bad: "delete_arguments ?none
      (map fst (key_matches (columns (meta item_Table)) (\<lambda>f. f \<in> {''id''}))) ?lacking
      = Inl (AttributeError ''id'')"
    by (simp only: cols) (simp add: delete_arguments_def getattr_py_def)
  have good: "delete_arguments ?none
      (map fst (key_matches (columns (meta item_Table)) (\<lambda>f. f \<in> {''id''}))) ?records
      = Inr [[''1'', ''2'']]"
    by (simp only: cols) (simp add: delete_arguments_def getattr_py_def)
  note all = batch_arguments_truncated
      [where self = item_Table and h = "answering []" and by_fields = "[''id'', ''name'']"
         and keys = ?keys and set_iter = "\<lambda>cs. cs" and class_attr = ?none]
  from all [where records = ?records]
  have le: "\<forall>k\<in>set ?keys. length (zip_star ?keys) \<le> length k"
    by (elim conjE)
  from all [where records = ?records]
  have "\<forall>pk. primary_key (meta item_Table) = Some pk \<and> pk \<noteq> {} \<longrightarrow>
         calls (snd (save item_Table (\<lambda>cs. cs) (answering []) ?records))
           = calls (answering []) @ [(save_sql item_Table (\<lambda>cs. cs) pk,
               zip_star (map (map snd) ?records))]"
    by (elim conjE)
  from this [rule_format, OF pk]
  have saved: "calls (snd (save item_Table (\<lambda>cs. cs) (answering []) ?records))
       = [(save_sql item_Table (\<lambda>cs. cs) {''id''}, [[''1'', ''2'']])]"
    by (simp add: answering_def z)
  from all [where records = ?lacking]
  have "\<forall>pk e. primary_key (meta item_Table) = Some pk \<and> pk \<noteq> {}
         \<and> delete_arguments ?none
               (map fst (key_matches (columns (meta item_Table)) (\<lambda>f. f \<in> pk))) ?lacking = Inl e
         \<longrightarrow> delete item_Table ?none (answering []) ?lacking = (Inl e, answering [])
             \<and> (\<exists>c\<in>set (map fst (key_matches (columns (meta item_Table)) (\<lambda>f. f \<in> pk))).
                  \<exists>rec\<in>set ?lacking.
                    getattr_py ?none rec (column_name c) = Inl e
                    \<and> e = AttributeError (column_name c))"
    by (elim conjE)
  from this [rule_format, OF conjI [OF conjunct1 [OF pk] conjI [OF conjunct2 [OF pk] bad]]]
  have raised: "delete item_Table ?none (answering []) ?lacking
      = (Inl (AttributeError ''id''), answering [])"
    by (rule conjunct1)
  from all [where records = ?records]
  have "\<forall>pk args. primary_key (meta item_Table) = Some pk \<and> pk \<noteq> {}
         \<and> delete_arguments ?none
               (map fst (key_matches (columns (meta item_Table)) (\<lambda>f. f \<in> pk))) ?records
             = Inr args
         \<longrightarrow> calls (snd (delete item_Table ?none (answering []) ?records))
               = calls (answering []) @ [(delete_sql item_Table pk, args)]
             \<and> length args
                 = length (key_matches (columns (meta item_Table)) (\<lambda>f. f \<in> pk))
             \<and> (\<forall>a\<in>set args. length a = length ?records)"
    by (elim conjE)
  from this [rule_format, OF conjI [OF conjunct1 [OF pk] conjI [OF conjunct2 [OF pk] good]]]
  have deleted: "calls (snd (delete item_Table ?none (answering []) ?records))
      = [(delete_sql item_Table {''id''}, [[''1'', ''2'']])]"
    by (simp add: answering_def)
  from le have "length (zip_star ?keys) \<le> length [''2'']"
    by simp
  with pk saved bad raised good deleted show ?thesis
    by (simp add: z)
qed

section \<open>Lookups: the result slots\<close>












section \<open>save and delete\<close>

text \<open>
  Claim C8. When the primary key of the table is \<^verbatim>\<open>None\<close> or the empty set,
  \<^verbatim>\<open>save\<close> and \<^verbatim>\<open>delete\<close> raise \<^verbatim>\<open>Exception\<close> with the message
  \<^verbatim>\<open>Table <schema>.<name> has no primary key\<close>, and the handle is as it was before the
  call: nothing has been dispatched through it.
\<close>

theorem no_primary_key_guard:
  assumes "primary_key (meta self) = None \<or> primary_key (meta self) = Some {}"
  shows "save self set_iter h records
           = (Inl (Exception (''Table '' @ table_schema (meta self) @ ''.''
                  @ table_name (meta self) @ '' has no primary key'')), h)
       \<and> delete self class_attr h records
           = (Inl (Exception (''Table '' @ table_schema (meta self) @ ''.''
                  @ table_name (meta self) @ '' has no primary key'')), h)"
  using assms by (auto simp: save_def delete_def no_primary_key_def)

theorem no_primary_key_guard_witness:
  "(primary_key (meta Schemata_Table) = None \<or> primary_key (meta Schemata_Table) = Some {})
   \<and> save Schemata_Table (\<lambda>cs. cs) (answering []) [[(''catalog_name'', ''postgres'')]]
       = (Inl (Exception ''Table information_schema.schemata has no primary key''),
          answering [])
   \<and> calls (snd (delete Schemata_Table (\<lambda>n. None) (answering [])
         [[(''catalog_name'', ''postgres'')]]))
       = []"
proof -
  have pk: "primary_key (meta Schemata_Table) = None \<or> primary_key (meta Schemata_Table) = Some {}"
    by (simp add: Schemata_Table_def Schemata_meta_def)
  have names: "table_schema (meta Schemata_Table) = ''information_schema''"
    "table_name (meta Schemata_Table) = ''schemata''"
    by (simp_all add: Schemata_Table_def Schemata_meta_def)
  from no_primary_key_guard [OF pk, of "\<lambda>cs. cs" "answering []"
      "[[(''catalog_name'', ''postgres'')]]" "\<lambda>n. None"]
  show ?thesis
    using pk by (simp add: names answering_def)
qed

lemma singleton_order:
  assumes "length ys = length [x]" and "set ys = set [x]"
  shows "ys = [x]"
  using assms by (cases ys) auto

lemma item_save_sets:
  assumes "\<forall>cs. length (set_iter cs) = length cs \<and> set (set_iter cs) = set cs"
  shows "set_iter (filter (\<lambda>c. field_name c \<in> {''id''}) (columns (meta item_Table)))
       = [\<lparr>column_name = ''id'', field_name = ''id'', sql_data_type = ''int'', is_array = False\<rparr>]"
    and "set_iter (filter (\<lambda>c. field_name c \<notin> {''id''}) (columns (meta item_Table)))
       = [\<lparr>column_name = ''name'', field_name = ''name'', sql_data_type = ''text'', is_array = False\<rparr>]"
  using assms by (simp_all add: item_Table_def item_meta_def singleton_order)

lemma item_unnested:
  \<open>render_unnested_selection (columns (meta item_Table)) =
     ''SELECT DISTINCT ON (__k.*) __k.* AS __n FROM UNNEST($1::int[], $2::text[]) AS __k("id", "name")''\<close>
proof -
  have \<open>render_unnested_selection (columns item_meta) =
     ''SELECT DISTINCT ON (__k.*) __k.* AS __n FROM UNNEST($1::int[], $2::text[]) AS __k("id", "name")''\<close>
    by code_simp
  then show ?thesis by (simp add: item_Table_def)
qed

text \<open>
  Claim C1 asks for \<^verbatim>\<open>ON CONFLICT (key columns) DO UPDATE SET (setter columns) = (...)\<close>
  with a predicate that holds when a setter column differs. For the table
  \<^verbatim>\<open>public.item\<close> with the columns \<^verbatim>\<open>id\<close> and \<^verbatim>\<open>name\<close> and the primary key
  \<^verbatim>\<open>id\<close>, whatever the order in which the two sets of columns are iterated, the
  statement that \<^verbatim>\<open>save\<close> dispatches is the one below: the clause is spelt
  \<^verbatim>\<open>ON CONFILICT\<close>, \<^verbatim>\<open>SET\<close> is missing, the updated columns are all columns and not
  the setter columns, \<^verbatim>\<open>WHERE\<close> follows the closing parenthesis with nothing in between,
  and the predicate requires the setter column of the stored row to be equal to the
  incoming one.
\<close>

theorem save_renders_malformed_upsert:
  assumes "\<forall>cs. length (set_iter cs) = length cs \<and> set (set_iter cs) = set cs"
  shows \<open>map fst (calls (snd (save item_Table set_iter (answering [])
              [[(''id'', ''1''), (''name'', ''a'')]])))
    = [''WITH __v AS (SELECT DISTINCT ON (__k.*) __k.* AS __n FROM UNNEST($1::int[], $2::text[]) AS __k("id", "name"))''
       @ [CHR 0x0A] @ ''INSERT INTO "public"."item" AS __t''
       @ [CHR 0x0A] @ ''SELECT * FROM __v''
       @ [CHR 0x0A] @ ''ON CONFILICT ("id") DO UPDATE ("id", "name") = ("__v"."id", "__v"."name")WHERE "__t"."name" = "__v"."name"'']\<close>
proof -
  have pk: "primary_key (meta item_Table) = Some {''id''}"
    by (simp add: item_Table_def item_meta_def)
  have sql: \<open>save_sql item_Table set_iter {''id''}
    = ''WITH __v AS (SELECT DISTINCT ON (__k.*) __k.* AS __n FROM UNNEST($1::int[], $2::text[]) AS __k("id", "name"))''
       @ [CHR 0x0A] @ ''INSERT INTO "public"."item" AS __t''
       @ [CHR 0x0A] @ ''SELECT * FROM __v''
       @ [CHR 0x0A] @ ''ON CONFILICT ("id") DO UPDATE ("id", "name") = ("__v"."id", "__v"."name")WHERE "__t"."name" = "__v"."name"''\<close>
    unfolding save_sql_def Let_def item_save_sets [OF assms] item_unnested
    by (simp add: item_Table_def item_meta_def render_selection_set_def
        render_aliased_selection_set_def render_list_def column_alias_def render_tk_match_def
        q_ident_def)
  show ?thesis
    by (simp add: save_def pk SQLHandle_exec_def Let_def answering_def sql split: sum.split)
qed

theorem save_renders_malformed_upsert_witness:
  \<open>(\<forall>cs::ColumnMetadata list. length ((\<lambda>cs. cs) cs) = length cs \<and> set ((\<lambda>cs. cs) cs) = set cs)
   \<and> map fst (calls (snd (save item_Table (\<lambda>cs. cs) (answering [])
              [[(''id'', ''1''), (''name'', ''a'')]])))
    = [''WITH __v AS (SELECT DISTINCT ON (__k.*) __k.* AS __n FROM UNNEST($1::int[], $2::text[]) AS __k("id", "name"))''
       @ [CHR 0x0A] @ ''INSERT INTO "public"."item" AS __t''
       @ [CHR 0x0A] @ ''SELECT * FROM __v''
       @ [CHR 0x0A] @ ''ON CONFILICT ("id") DO UPDATE ("id", "name") = ("__v"."id", "__v"."name")WHERE "__t"."name" = "__v"."name"'']\<close>
proof -
  have perm: "\<forall>cs::ColumnMetadata list. length ((\<lambda>cs. cs) cs) = length cs \<and> set ((\<lambda>cs. cs) cs) = set cs"
    by simp
  from save_renders_malformed_upsert [OF perm] perm show ?thesis
    by blast
qed

section \<open>Transaction scopes\<close>

lemma str_int_1: "str_int 1 = ''1''"
  by (simp add: str_int_def str_nat.simps)

text \<open>
  Claim C2 asks that a scope B opened inside scope A executes \<^verbatim>\<open>SAVEPOINT 1\<close> and that
  its failure executes \<^verbatim>\<open>ROLLBACK TO SAVEPOINT 1\<close>. On a fresh handle the first
  \<^verbatim>\<open>transaction()\<close> gives scope A at level 0 and entering it executes
  \<^verbatim>\<open>BEGIN TRANSACTION;\<close>. The second \<^verbatim>\<open>transaction()\<close> raises
  \<^verbatim>\<open>RuntimeError\<close> and leaves the handle as it was: no scope B exists and no savepoint
  statement has been executed. And for a scope of level 1, however it was made, leaving it
  with an exception executes the text \<^verbatim>\<open>ROLLBACK TO SAVEPOINT "1\<close>, whose quote is not
  closed, where entering it executes \<^verbatim>\<open>SAVEPOINT "1";\<close>.
\<close>

theorem nested_scope_raises:
  \<open>fst (transaction TestSQLHandle_init) = Inr \<lparr>level = 0\<rparr>
   \<and> conn (aenter \<lparr>level = 0\<rparr> (snd (transaction TestSQLHandle_init)))
       = [''BEGIN TRANSACTION;'']
   \<and> transaction (aenter \<lparr>level = 0\<rparr> (snd (transaction TestSQLHandle_init)))
       = (Inl RuntimeError, aenter \<lparr>level = 0\<rparr> (snd (transaction TestSQLHandle_init)))
   \<and> conn (aenter \<lparr>level = 1\<rparr> h) = conn h @ [''SAVEPOINT "1";'']
   \<and> conn (aexit \<lparr>level = 1\<rparr> ExceptionInstance h) = conn h @ [''ROLLBACK TO SAVEPOINT "1'']
   \<and> conn (aexit \<lparr>level = 0\<rparr> ExceptionInstance h) = conn h @ [''ROLLBACK;'']\<close>
  by (simp add: TestSQLHandle_init_def transaction_def aquire_connection_def aenter_def
      aexit_def conn_execute_def str_int_1)

text \<open>
  Claim C5 asks that every exit of a scope decrements the counter of the session. On a
  fresh handle, after \<^verbatim>\<open>transaction()\<close> has given a scope and the scope has been entered
  and left, with whatever \<^verbatim>\<open>exc_value\<close>, \<^verbatim>\<open>tx_level\<close> is 1 although no scope is
  open: \<^verbatim>\<open>transaction()\<close> raised it from 0 to 1, and \<^verbatim>\<open>__aexit__\<close> leaves the
  counter of every handle as it finds it.
\<close>

theorem exit_keeps_tx_level:
  "tx_level TestSQLHandle_init = 0
   \<and> fst (transaction TestSQLHandle_init) = Inr \<lparr>level = 0\<rparr>
   \<and> tx_level (snd (transaction TestSQLHandle_init)) = 1
   \<and> tx_level (aexit \<lparr>level = 0\<rparr> exc
         (aenter \<lparr>level = 0\<rparr> (snd (transaction TestSQLHandle_init)))) = 1
   \<and> tx_level (aexit tx exc h) = tx_level h"
  by (simp add: TestSQLHandle_init_def transaction_def aquire_connection_def aenter_def
      aexit_def conn_execute_def)

end
